theory Spec2Isabelle
  imports Main "HOL-Library.Word"
begin

unbundle bit_operations_syntax

section \<open>Data structures of xfat.c\<close>

text \<open>
  The fixed-width types \<open>uint8_t\<close>, \<open>uint16_t\<close> and \<open>uint32_t\<close> are words of that
  width. A C \<open>int\<close> is a HOL \<open>int\<close>: the file stores, compares and passes its
  \<open>int\<close>s and adds 1 to a small buffer offset, nothing that can overflow. A pointer is
  a word of some width \<open>'a\<close> (the records take the pointer type as a parameter), and
  memory maps every address to a byte. The file states its own constraint
  "little-endian cpu": a 16- or 32-bit load through a cast pointer assembles the bytes at
  increasing addresses from the least significant one.
\<close>

type_synonym 'a memory = "'a word \<Rightarrow> 8 word"

text \<open>\<open>struct xfat32_bpb\<close> (packed; the comments give the offsets from 0x0b).\<close>

record xfat32_bpb =
  sector_sz16 :: "16 word"
  cluster_sz :: "8 word"
  nr_reserved :: "16 word"
  nr_fats :: "8 word"
  nr_dirents16 :: "16 word"
  nr_sectors16 :: "16 word"
  media_type :: "8 word"
  fat_size16 :: "16 word"
  track_size :: "16 word"
  nr_heads :: "16 word"
  nr_hidden :: "32 word"
  nr_sectors :: "32 word"
  fat_size :: "32 word"
  flags :: "16 word"
  version :: "16 word"
  cluster_root :: "32 word"
  fs_info :: "16 word"
  boot_sector :: "16 word"

text \<open>\<open>struct xfat32_dentry\<close> (32 bytes, packed).\<close>

record xfat32_dentry =
  file_name :: "8 word list"
  file_ext :: "8 word list"
  file_attr :: "8 word"
  attr0 :: "8 word"
  attr1 :: "8 word"
  ctime :: "16 word"
  cdate :: "16 word"
  adate :: "16 word"
  clust_hi :: "16 word"
  mtime :: "16 word"
  mdate :: "16 word"
  clust_lo :: "16 word"
  file_size :: "32 word"

text \<open>
  \<open>struct xfat_storage_provider\<close>. The file calls \<open>read_sectors\<close> only; \<open>open\<close> and
  \<open>close\<close> are never called and are left out. The provider is outside the file: its
  \<open>read_sectors\<close> gets the device's own state \<open>'d\<close> and the memory, then the four
  arguments of the declaration in their order (\<open>host\<close>, \<open>buffer\<close>, \<open>sector\<close>, \<open>nr\<close>),
  and gives back its status, the device's new state and the memory as it left it. The
  code holds providers by pointer: the record stands for the struct together with the
  address it lives at (\<open>address\<close>), which is the value of a pointer to it.
\<close>

record ('p, 'd) xfat_storage_provider =
  address :: 'p
  buffer :: 'p
  read_sectors ::
    "'d \<Rightarrow> ('p \<Rightarrow> 8 word) \<Rightarrow> 'p \<Rightarrow> 'p \<Rightarrow> int \<Rightarrow> int \<Rightarrow> int \<times> 'd \<times> ('p \<Rightarrow> 8 word)"

text \<open>
  \<open>struct xfat\<close>. \<open>read_bpb\<close> writes through \<open>&xfat.bpb\<close>, a member the declaration of
  the struct does not list; it is the last field here.
\<close>

record ('p, 'd) xfat =
  slba :: int
  elba :: int
  host :: "('p, 'd) xfat_storage_provider"
  buffer :: 'p
  cur_sector :: int
  root_cluster :: int
  cluster_sz :: int
  cluster_begins :: int
  nr_fats :: int
  data_sector :: int
  nr_sectors :: "32 word"
  sz_fat :: int
  bpb :: xfat32_bpb

text \<open>
  The state the file runs in: the global \<open>static struct xfat xfat\<close>, the byte memory,
  the device behind the provider, and a log of the provider reads issued so far (sector
  and count of each call), which the C code does not keep and the model records to count
  I/O.
\<close>

record ('p, 'd) machine =
  xfat :: "('p, 'd) xfat"
  memory :: "'p \<Rightarrow> 8 word"
  device :: 'd
  io_log :: "(int \<times> int) list"

text \<open>
  What a C function hands back: the value of a \<open>return\<close> statement, or nothing when
  control reaches the closing brace of a non-void function.
\<close>

datatype cret = Return int | NoReturn

section \<open>Field readers\<close>

definition is_power_of_2 :: "32 word \<Rightarrow> int" where
  "is_power_of_2 v = (if v \<noteq> 0 \<and> v AND (v - 1) = 0 then 1 else 0)"

definition read_byte :: "'a::len memory \<Rightarrow> 'a word \<Rightarrow> int \<Rightarrow> 8 word" where
  "read_byte mem buf offset = mem (buf + word_of_int offset)"

text \<open>The little-endian CPU's loads through \<open>volatile uint16_t *\<close> and \<open>volatile uint32_t *\<close>.\<close>

definition load_u16 :: "'a::len memory \<Rightarrow> 'a word \<Rightarrow> 16 word" where
  "load_u16 mem a = ucast (mem a) OR push_bit 8 (ucast (mem (a + 1)))"

definition load_u32 :: "'a::len memory \<Rightarrow> 'a word \<Rightarrow> 32 word" where
  "load_u32 mem a =
     ucast (mem a) OR push_bit 8 (ucast (mem (a + 1)))
       OR push_bit 16 (ucast (mem (a + 2))) OR push_bit 24 (ucast (mem (a + 3)))"

text \<open>
  \<open>read_half\<close>: \<open>read_byte\<close> gives a \<open>uint8_t\<close>, promoted to \<open>int\<close> before the shift;
  the cast to \<open>uint16_t\<close> keeps the low 16 bits.
\<close>

definition read_half :: "'a::len memory \<Rightarrow> 'a word \<Rightarrow> int \<Rightarrow> 16 word" where
  "read_half mem buf offset =
     (let addr = buf + word_of_int offset in
      if addr AND 3 \<noteq> 0
      then ucast (read_byte mem buf offset)
             OR ucast (push_bit 8 (ucast (read_byte mem buf (offset + 1)) :: 32 word))
      else load_u16 mem addr)"

text \<open>
  \<open>read_word\<close>: the local \<open>ret\<close> is declared \<open>uint16_t\<close>, so either branch is cut to
  16 bits on assignment and widened again by the \<open>return\<close>; the unaligned branch calls
  \<open>read_half(buf, offset)\<close> for both halves. The shift of the promoted half by 16 is
  taken in 32 bits.
\<close>

definition read_word :: "'a::len memory \<Rightarrow> 'a word \<Rightarrow> int \<Rightarrow> 32 word" where
  "read_word mem buf offset =
     (let addr = buf + word_of_int offset;
          ret = (if addr AND 7 \<noteq> 0
                 then ucast ((ucast (read_half mem buf offset) :: 32 word)
                        OR push_bit 16 (ucast (read_half mem buf offset) :: 32 word))
                 else ucast (load_u32 mem addr)) :: 16 word
      in ucast ret)"

text \<open>
  \<open>read_unaligned\<close> stores through \<open>dst\<close> a value of the width \<open>size\<close> (here \<open>sz\<close>); the model
  returns that value in 32 bits and the caller cuts it to the member's width. A size
  other than 4, 2 or 1 makes the C code load from address 3.
\<close>

definition read_unaligned :: "'a::len memory \<Rightarrow> 'a word \<Rightarrow> int \<Rightarrow> nat \<Rightarrow> 32 word" where
  "read_unaligned mem buf offset sz =
     (if sz = 4 then read_word mem buf offset
      else if sz = 2 then ucast (read_half mem buf offset)
      else if sz = 1 then ucast (read_byte mem buf offset)
      else ucast (ucast (load_u32 mem 3) :: 8 word))"

text \<open>
  The little-endian value of the bytes at an address, as the format defines a 16-bit and
  a 32-bit field; the readers are compared with these.
\<close>

definition le16_at :: "'a::len memory \<Rightarrow> 'a word \<Rightarrow> 16 word" where
  "le16_at mem a = ucast (mem a) OR push_bit 8 (ucast (mem (a + 1)))"

definition le32_at :: "'a::len memory \<Rightarrow> 'a word \<Rightarrow> 32 word" where
  "le32_at mem a =
     ucast (mem a) OR push_bit 8 (ucast (mem (a + 1)))
       OR push_bit 16 (ucast (mem (a + 2))) OR push_bit 24 (ucast (mem (a + 3)))"

text \<open>Bytes that are zero but for the ones listed (position and value).\<close>

fun bytes_at :: "('k \<times> 8 word) list \<Rightarrow> 'k \<Rightarrow> 8 word" where
  "bytes_at [] a = 0"
| "bytes_at ((k, v) # kvs) a = (if a = k then v else bytes_at kvs a)"

section \<open>Sector cache\<close>

text \<open>
  A call through \<open>host->read_sectors\<close> with the four arguments given: the provider runs
  on the device and the memory, and the call is logged with its sector and count.
\<close>

definition host_read_sectors ::
  "('p, 'd) xfat_storage_provider \<Rightarrow> 'p \<Rightarrow> 'p \<Rightarrow> int \<Rightarrow> int \<Rightarrow> ('p, 'd) machine
     \<Rightarrow> int \<times> ('p, 'd) machine" where
  "host_read_sectors h host_arg buf sector nr m =
     (case read_sectors h (device m) (memory m) host_arg buf sector nr of
        (r, dv, mem) \<Rightarrow> (r, m\<lparr>memory := mem, device := dv, io_log := io_log m @ [(sector, nr)]\<rparr>))"

text \<open>
  \<open>read_sector\<close>. The call reads \<open>host->read_sectors(xgpt.host, xgpt.buffer, lba, 1)\<close>:
  neither \<open>xgpt\<close> nor \<open>lba\<close> is declared in the file, so the host pointer, the buffer
  address and the sector number passed to the provider are parameters of the model.
\<close>

definition read_sector ::
  "'p \<Rightarrow> 'p \<Rightarrow> int \<Rightarrow> int \<Rightarrow> ('p, 'd) machine \<Rightarrow> int \<times> ('p, 'd) machine" where
  "read_sector xgpt_host xgpt_buffer lba sector m =
     (let h = host (xfat m) in
      if cur_sector (xfat m) \<noteq> sector
      then (case host_read_sectors h xgpt_host xgpt_buffer lba 1 m of
              (r, m') \<Rightarrow>
                if r < 0 then (- 1, m')
                else (0, m'\<lparr>xfat := (xfat m')\<lparr>cur_sector := sector\<rparr>\<rparr>))
      else (0, m))"

section \<open>Boot sector\<close>

text \<open>\<open>memcmp\<close> against a byte string: 0 when equal, else the difference of the first
  bytes that differ.\<close>

fun memcmp :: "'a::len memory \<Rightarrow> 'a word \<Rightarrow> 8 word list \<Rightarrow> int" where
  "memcmp mem p [] = 0"
| "memcmp mem p (c # cs) =
     (if mem p = c then memcmp mem (p + 1) cs else uint (mem p) - uint c)"

text \<open>The string literal \<open>"FAT32"\<close>.\<close>

definition FAT32_label :: "8 word list" where
  "FAT32_label = [0x46, 0x41, 0x54, 0x33, 0x32]"

text \<open>
  The macro \<open>read_bpb_unit(bpb, member, buf)\<close> expands to
  \<open>read_unaligned(&bpb->member, buf, (int)(((struct xfat32_bpb *)0)->member),
  sizeof(bpb->member))\<close>. Its offset argument has no \<open>&\<close>: it is the value of the
  member of a struct placed at address 0, converted to \<open>int\<close>, and not the member's
  offset. \<open>bpb_unit_offset\<close> is that value for the member at offset \<open>off\<close> of the packed
  struct and of \<open>sz\<close> bytes, loaded as the little-endian CPU loads it; where address 0
  cannot be read the load traps, which a memory defined at every address does not show.
\<close>

definition bpb_unit_offset :: "'a::len memory \<Rightarrow> nat \<Rightarrow> nat \<Rightarrow> int" where
  "bpb_unit_offset mem off sz =
     (if sz = 4 then sint (load_u32 mem (of_nat off))
      else if sz = 2 then uint (load_u16 mem (of_nat off))
      else uint (mem (of_nat off)))"

definition read_bpb_unit :: "'a::len memory \<Rightarrow> 'a word \<Rightarrow> nat \<Rightarrow> nat \<Rightarrow> 32 word" where
  "read_bpb_unit mem buf off sz = read_unaligned mem buf (bpb_unit_offset mem off sz) sz"

text \<open>
  The eighteen \<open>read_bpb_unit\<close> lines of \<open>read_bpb\<close>, each with the offset of its member
  in the packed struct (the offsets of the comments) and its size; \<open>sector_sz\<close> and
  \<open>nr_dirents\<close> name the members declared \<open>sector_sz16\<close> and \<open>nr_dirents16\<close>.
\<close>

definition decode_bpb :: "'a::len memory \<Rightarrow> 'a word \<Rightarrow> xfat32_bpb" where
  "decode_bpb mem ptr =
     \<lparr> sector_sz16 = ucast (read_bpb_unit mem ptr 0x00 2),
       xfat32_bpb.cluster_sz = ucast (read_bpb_unit mem ptr 0x02 1),
       nr_reserved = ucast (read_bpb_unit mem ptr 0x03 2),
       xfat32_bpb.nr_fats = ucast (read_bpb_unit mem ptr 0x05 1),
       nr_dirents16 = ucast (read_bpb_unit mem ptr 0x06 2),
       nr_sectors16 = ucast (read_bpb_unit mem ptr 0x08 2),
       media_type = ucast (read_bpb_unit mem ptr 0x0a 1),
       fat_size16 = ucast (read_bpb_unit mem ptr 0x0b 2),
       track_size = ucast (read_bpb_unit mem ptr 0x0d 2),
       nr_heads = ucast (read_bpb_unit mem ptr 0x0f 2),
       nr_hidden = read_bpb_unit mem ptr 0x11 4,
       xfat32_bpb.nr_sectors = read_bpb_unit mem ptr 0x15 4,
       fat_size = read_bpb_unit mem ptr 0x19 4,
       flags = ucast (read_bpb_unit mem ptr 0x1d 2),
       version = ucast (read_bpb_unit mem ptr 0x1f 2),
       cluster_root = read_bpb_unit mem ptr 0x21 4,
       fs_info = ucast (read_bpb_unit mem ptr 0x25 2),
       boot_sector = ucast (read_bpb_unit mem ptr 0x27 2) \<rparr>"

text \<open>
  The checks of \<open>read_bpb\<close> after the decoding, in the order of the source. The third
  compares the 0-or-1 result of \<open>is_power_of_2\<close> with 512.
\<close>

definition validate_bpb :: "'a::len memory \<Rightarrow> 'a word \<Rightarrow> xfat32_bpb \<Rightarrow> int" where
  "validate_bpb mem buf b =
     (if read_half mem buf 0x1fe \<noteq> 0x55aa then - 1
      else if memcmp mem (buf + 0x52) FAT32_label \<noteq> 0 then - 1
      else if is_power_of_2 (ucast (sector_sz16 b)) \<noteq> 512 then - 1
      else if is_power_of_2 (ucast (xfat32_bpb.cluster_sz b)) = 0 then - 1
      else if nr_reserved b < 1 then - 1
      else if xfat32_bpb.nr_fats b \<noteq> 1 \<and> xfat32_bpb.nr_fats b \<noteq> 2 then - 1
      else if media_type b < 0xe5 then - 1
      else if fat_size b = 0 then - 1
      else 0)"

text \<open>
  \<open>read_bpb\<close>. Its first statement calls \<open>host->read_sectors(xfat.buffer, host, 0, 1)\<close>
  with no \<open>host\<close> in scope; \<open>host\<close> is \<open>xfat.host\<close>, which \<open>xfat_init\<close> has just set.
  The arguments are in the order of the source: \<open>xfat.buffer\<close> is what the provider gets
  as \<open>host\<close>, and the pointer \<open>host\<close> is what it gets as \<open>buffer\<close>, so the sector goes
  where the provider's struct lives and \<open>xfat.buffer\<close> keeps the bytes it had. The
  checks then read \<open>xfat.buffer\<close>.
\<close>

definition read_bpb :: "('a::len word, 'd) machine \<Rightarrow> int \<times> ('a word, 'd) machine" where
  "read_bpb m =
     (case host_read_sectors (host (xfat m)) (xfat.buffer (xfat m)) (address (host (xfat m)))
             0 1 m of
        (ret, m1) \<Rightarrow>
          if ret < 0 then (ret, m1)
          else
            (let ptr = xfat.buffer (xfat m1) + 0x0b;
                 b = decode_bpb (memory m1) ptr;
                 m2 = m1\<lparr>xfat := (xfat m1)\<lparr>bpb := b\<rparr>\<rparr>
             in (validate_bpb (memory m2) (xfat.buffer (xfat m2)) b, m2)))"

text \<open>
  \<open>xfat_init\<close>: after the check of \<open>ret\<close> the function ends without a \<open>return\<close> and
  without a store to any geometry member.
\<close>

definition xfat_init ::
  "int \<Rightarrow> int \<Rightarrow> ('a::len word, 'd) xfat_storage_provider \<Rightarrow> ('a word, 'd) machine
     \<Rightarrow> cret \<times> ('a word, 'd) machine" where
  "xfat_init lba nr_sectors_arg h m =
     (let m0 = m\<lparr>xfat := (xfat m)\<lparr>host := h, xfat.buffer := xfat_storage_provider.buffer h\<rparr>\<rparr>
      in case read_bpb m0 of
           (ret, m1) \<Rightarrow> if ret < 0 then (Return ret, m1) else (NoReturn, m1))"

text \<open>The members of \<open>struct xfat\<close> under its comment "from FAT32 BPB".\<close>

definition geometry ::
  "('p, 'd) xfat \<Rightarrow> int \<times> int \<times> int \<times> int \<times> int \<times> 32 word \<times> int" where
  "geometry x =
     (root_cluster x, xfat.cluster_sz x, cluster_begins x, xfat.nr_fats x, data_sector x,
      xfat.nr_sectors x, sz_fat x)"

section \<open>Path resolution and file read\<close>

definition is_delimeter :: "char \<Rightarrow> int" where
  "is_delimeter c = (if c = CHR ''/'' \<or> c = CHR 0x5C then 1 else 0)"

text \<open>
  \<open>valid_cluster\<close>: the line of the source stops after the constant \<open>0xffffff\<close>.
\<close>

definition valid_cluster :: "32 word \<Rightarrow> int" where
  "valid_cluster clust = (if clust \<ge> 2 \<and> clust \<le> 0xffffff then 1 else 0)"

text \<open>
  The range of a normal next cluster in the words of the specification
  (2..0x0FFFFFEF), to compare \<open>valid_cluster\<close> with.
\<close>

definition spec_normal_cluster :: "32 word \<Rightarrow> bool" where
  "spec_normal_cluster v = (2 \<le> v \<and> v \<le> 0x0FFFFFEF)"

text \<open>
  A \<open>const char *\<close> into the NUL-terminated path is the rest of the string from that
  position; \<open>*s\<close> is its first character, NUL at the end.
\<close>

definition deref :: "string \<Rightarrow> char" where
  "deref s = (case s of [] \<Rightarrow> CHR 0x00 | c # _ \<Rightarrow> c)"

text \<open>\<open>while (*s && is_delimeter(*s)) s++;\<close>\<close>

fun skip_delimeters :: "string \<Rightarrow> string" where
  "skip_delimeters [] = []"
| "skip_delimeters (c # cs) =
     (if c \<noteq> CHR 0x00 \<and> is_delimeter c \<noteq> 0 then skip_delimeters cs else c # cs)"

text \<open>\<open>e = s; while (*e && !is_delimeter(*e)) e++;\<close>\<close>

fun component_end :: "string \<Rightarrow> string" where
  "component_end [] = []"
| "component_end (c # cs) =
     (if c \<noteq> CHR 0x00 \<and> is_delimeter c = 0 then component_end cs else c # cs)"

text \<open>\<open>struct diter\<close>, local to \<open>get_dentry\<close>.\<close>

record diter =
  cluster :: "32 word"
  sector :: int

text \<open>
  The \<open>while (1)\<close> of \<open>get_dentry\<close>. One round skips the delimiters, returns -1 at the
  end of the path, finds the end \<open>e\<close> of the component and, when
  \<open>iter.sector >= xfat.cluster_sz\<close>, calls \<open>fat_entry(cluster)\<close>; the source has
  nothing more in the body (an \<open>if (\<close> is left open), so no statement moves \<open>s\<close> past
  the component, changes \<open>iter\<close> or \<open>cluster\<close>, or stores through \<open>d\<close>, and the next
  round starts where this one did. \<open>fat_entry\<close> is not defined in the file: it is a
  parameter, free to use the machine. The loop may not end, so the result is an option
  and not returning is \<open>None\<close>.
\<close>

partial_function (option) get_dentry_loop ::
  "(int \<Rightarrow> ('p, 'd) machine \<Rightarrow> int \<times> ('p, 'd) machine) \<Rightarrow> diter \<Rightarrow> int \<Rightarrow> xfat32_dentry
     \<Rightarrow> string \<Rightarrow> ('p, 'd) machine \<Rightarrow> (int \<times> xfat32_dentry \<times> ('p, 'd) machine) option" where
  "get_dentry_loop fat_entry iter cluster_var d s m =
     (let s1 = skip_delimeters s in
      if deref s1 = CHR 0x00 then Some (- 1, d, m)
      else
        (let e = component_end s1;
             m' = (if sector iter \<ge> xfat.cluster_sz (xfat m)
                   then snd (fat_entry cluster_var m) else m)
         in get_dentry_loop fat_entry iter cluster_var d s1 m'))"

text \<open>
  \<open>get_dentry\<close>: \<open>iter = { xfat.root_cluster, -1, 0 }\<close>, \<open>cluster = xfat.root_cluster\<close>,
  \<open>s = filepath\<close>. The result is the returned \<open>int\<close>, the contents of \<open>*d\<close> and the
  machine.
\<close>

definition get_dentry ::
  "(int \<Rightarrow> ('p, 'd) machine \<Rightarrow> int \<times> ('p, 'd) machine) \<Rightarrow> string \<Rightarrow> xfat32_dentry
     \<Rightarrow> ('p, 'd) machine \<Rightarrow> (int \<times> xfat32_dentry \<times> ('p, 'd) machine) option" where
  "get_dentry fat_entry filepath d m =
     get_dentry_loop fat_entry
       \<lparr> cluster = word_of_int (root_cluster (xfat m)), sector = - 1 \<rparr>
       (root_cluster (xfat m)) d filepath m"

text \<open>
  \<open>xfat_readfile\<close>: the local \<open>d\<close> starts with whatever the stack holds (\<open>d0\<close>). After
  the check of \<open>ret\<close> the function ends: no comparison of \<open>offset\<close> and \<open>size\<close> with
  the file size, no copy into \<open>buf\<close>, no \<open>return\<close>.
\<close>

definition xfat_readfile ::
  "(int \<Rightarrow> ('p, 'd) machine \<Rightarrow> int \<times> ('p, 'd) machine) \<Rightarrow> xfat32_dentry \<Rightarrow> string \<Rightarrow> 'p
     \<Rightarrow> 32 word \<Rightarrow> int \<Rightarrow> ('p, 'd) machine \<Rightarrow> (cret \<times> ('p, 'd) machine) option" where
  "xfat_readfile fat_entry d0 filepath buf offset sz m =
     (case get_dentry fat_entry filepath d0 m of
        None \<Rightarrow> None
      | Some (ret, d, m') \<Rightarrow> if ret < 0 then Some (Return (- 1), m') else Some (NoReturn, m'))"

section \<open>Concrete volumes\<close>

text \<open>
  A provider over a disk image (sector and byte offset to byte), its struct at 0x2000: a
  read of a sector listed in \<open>bad\<close> fails with -1 after filling the first 512 bytes of the
  buffer it was given with 0xFF; any other read copies \<open>nr\<close> sectors of 512 bytes into
  that buffer and returns 0. It does not look at its \<open>host\<close> argument.
\<close>

definition copy_sectors ::
  "(int \<Rightarrow> nat \<Rightarrow> 8 word) \<Rightarrow> 'a::len memory \<Rightarrow> 'a word \<Rightarrow> int \<Rightarrow> int \<Rightarrow> 'a memory" where
  "copy_sectors disk mem buf sec nr =
     (\<lambda>a. let i = unat (a - buf)
          in if int i < 512 * nr then disk (sec + int (i div 512)) (i mod 512) else mem a)"

definition sample_provider ::
  "(int \<Rightarrow> nat \<Rightarrow> 8 word) \<Rightarrow> int list \<Rightarrow> 32 word \<Rightarrow> (32 word, unit) xfat_storage_provider" where
  "sample_provider disk bad b =
     \<lparr> address = 0x2000, xfat_storage_provider.buffer = b,
       read_sectors = (\<lambda>dv mem host_arg buf sec nr.
         if sec \<in> set bad
         then (- 1, dv, (\<lambda>a. if unat (a - buf) < 512 then 0xFF else mem a))
         else (0, dv, copy_sectors disk mem buf sec nr)) \<rparr>"

definition zero_bpb :: xfat32_bpb where
  "zero_bpb =
     \<lparr> sector_sz16 = 0, xfat32_bpb.cluster_sz = 0, nr_reserved = 0, xfat32_bpb.nr_fats = 0,
       nr_dirents16 = 0, nr_sectors16 = 0, media_type = 0, fat_size16 = 0, track_size = 0,
       nr_heads = 0, nr_hidden = 0, xfat32_bpb.nr_sectors = 0, fat_size = 0, flags = 0,
       version = 0, cluster_root = 0, fs_info = 0, boot_sector = 0 \<rparr>"

text \<open>
  The machine with the static \<open>xfat\<close> zeroed but for \<open>host\<close> and \<open>buffer\<close>, which are
  set as the first two statements of \<open>xfat_init\<close> set them; memory is zero and no read
  has been issued.
\<close>

definition sample_machine ::
  "(32 word, unit) xfat_storage_provider \<Rightarrow> (32 word, unit) machine" where
  "sample_machine h =
     \<lparr> xfat = \<lparr> slba = 0, elba = 0, host = h, xfat.buffer = xfat_storage_provider.buffer h,
                cur_sector = 0, root_cluster = 0, xfat.cluster_sz = 0, cluster_begins = 0,
                xfat.nr_fats = 0, data_sector = 0, xfat.nr_sectors = 0, sz_fat = 0,
                bpb = zero_bpb \<rparr>,
       memory = (\<lambda>a. 0), device = (), io_log = [] \<rparr>"

text \<open>
  A boot sector: 512-byte sectors, 8 sectors per cluster, 32 reserved sectors, 2 FATs,
  media type 0xF8, 0x100000 sectors, 0x400 sectors per FAT, root cluster 2, the label
  "FAT32" at 0x52, and at 0x1FE the two bytes that the reader of the file assembles to
  0x55AA. \<open>boot_disk\<close> puts the listed bytes in sector 0 of an otherwise zero disk.
\<close>

definition good_boot :: "(nat \<times> 8 word) list" where
  "good_boot =
     [(0x0b, 0x00), (0x0c, 0x02), (0x0d, 0x08), (0x0e, 0x20), (0x0f, 0x00), (0x10, 0x02),
      (0x15, 0xF8), (0x20, 0x00), (0x21, 0x00), (0x22, 0x10), (0x23, 0x00),
      (0x24, 0x00), (0x25, 0x04), (0x26, 0x00), (0x27, 0x00), (0x2c, 0x02),
      (0x52, 0x46), (0x53, 0x41), (0x54, 0x54), (0x55, 0x33), (0x56, 0x32),
      (0x1fe, 0xAA), (0x1ff, 0x55)]"

definition boot_disk :: "(nat \<times> 8 word) list \<Rightarrow> int \<Rightarrow> nat \<Rightarrow> 8 word" where
  "boot_disk bytes sec i = (if sec = 0 then bytes_at bytes i else 0)"

text \<open>
  A well-formed boot sector in the words of the specification, on the bytes of the
  buffer: signature 0x55AA at 0x1FE, label "FAT32" at 0x52, 512 bytes per sector, a power
  of two as sectors per cluster, at least one reserved sector, one or two FATs, media type
  from 0xE5, a non-zero 32-bit FAT size.
\<close>

definition spec_well_formed :: "'a::len memory \<Rightarrow> 'a word \<Rightarrow> bool" where
  "spec_well_formed mem buf =
     (le16_at mem (buf + 0x1fe) = 0x55aa
      \<and> map (\<lambda>i. mem (buf + 0x52 + of_nat i)) [0..<5] = FAT32_label
      \<and> le16_at mem (buf + 0x0b) = 512
      \<and> mem (buf + 0x0d) \<in> set [1, 2, 4, 8, 16, 32, 64, 128]
      \<and> le16_at mem (buf + 0x0e) \<ge> 1
      \<and> mem (buf + 0x10) \<in> set [1, 2]
      \<and> mem (buf + 0x15) \<ge> 0xe5
      \<and> le32_at mem (buf + 0x24) \<noteq> 0)"

text \<open>The data region start the specification computes from the same bytes.\<close>

definition spec_data_region_start :: "'a::len memory \<Rightarrow> 'a word \<Rightarrow> int" where
  "spec_data_region_start mem buf =
     uint (le16_at mem (buf + 0x0e)) + uint (mem (buf + 0x10)) * uint (le32_at mem (buf + 0x24))"

text \<open>A disk whose sector \<open>n\<close> holds the byte \<open>n\<close> at every offset.\<close>

definition numbered_disk :: "int \<Rightarrow> nat \<Rightarrow> 8 word" where
  "numbered_disk sec i = word_of_int sec"

definition sample_dentry :: xfat32_dentry where
  "sample_dentry =
     \<lparr> file_name = replicate 8 0x20, file_ext = replicate 3 0x20, file_attr = 0, attr0 = 0,
       attr1 = 0, ctime = 0, cdate = 0, adate = 0, clust_hi = 0, mtime = 0, mdate = 0,
       clust_lo = 0, file_size = 0 \<rparr>"

text \<open>\<open>FAT_DELETE_CHAR\<close>: the source defines it and uses it nowhere.\<close>

definition FAT_DELETE_CHAR :: "8 word" where
  "FAT_DELETE_CHAR = 0xe5"

text \<open>
  Mounting the disk whose sector 0 holds the listed bytes: the provider never fails, its
  buffer is at 0x1000 and holds sector 0 of the disk already, and \<open>xfat_init\<close> runs on
  the machine that is zeroed otherwise.
\<close>

definition mount_sample :: "(nat \<times> 8 word) list \<Rightarrow> cret \<times> (32 word, unit) machine" where
  "mount_sample bytes =
     (let h = sample_provider (boot_disk bytes) [] 0x1000
      in xfat_init 0 0x100000 h
           ((sample_machine h)\<lparr>memory := copy_sectors (boot_disk bytes) (\<lambda>a. 0) 0x1000 0 1\<rparr>))"



text \<open>The machine over the numbered disk, on which every read of sector 7 fails.\<close>

definition cache_machine :: "(32 word, unit) machine" where
  "cache_machine = sample_machine (sample_provider numbered_disk [7] 0x1000)"

text \<open>
  The machine after a read of sector 5 through the cache, and then after a read of
  sector 7, which the provider fails.
\<close>

definition cache_after_5 :: "(32 word, unit) machine" where
  "cache_after_5 = snd (read_sector 0x2000 0x1000 5 5 cache_machine)"

definition cache_after_7 :: "(32 word, unit) machine" where
  "cache_after_7 = snd (read_sector 0x2000 0x1000 7 7 cache_after_5)"

text \<open>
  A \<open>fat_entry\<close> for a FAT in which the entry of every cluster is the cluster itself (each
  chain is a cycle of length one); it leaves the machine alone.
\<close>

definition cyclic_fat_entry ::
  "int \<Rightarrow> (32 word, unit) machine \<Rightarrow> int \<times> (32 word, unit) machine" where
  "cyclic_fat_entry c m = (c, m)"

section \<open>The field readers\<close>

lemma ucast_push_bit_8:
  "(ucast (push_bit 8 (ucast (b :: 8 word) :: 32 word)) :: 16 word) = push_bit 8 (ucast b)"
  by (rule bit_word_eqI) (auto simp add: bit_simps)

text \<open>
  \<open>read_half\<close> returns the little-endian 16-bit value at the offset, whatever the
  alignment of the address.
\<close>

lemma read_half_le16: "read_half mem buf offset = le16_at mem (buf + word_of_int offset)"
  by (simp add: read_half_def read_byte_def load_u16_def le16_at_def Let_def
      ucast_push_bit_8 add.assoc)

lemma low16_of_doubled_half:
  "(ucast ((ucast (h :: 16 word) :: 32 word) OR push_bit 16 (ucast h :: 32 word)) :: 16 word) = h"
  by (rule bit_word_eqI) (auto simp add: bit_simps)

lemma low16_of_load_u32: "(ucast (load_u32 mem a) :: 16 word) = le16_at mem a"
  unfolding load_u32_def le16_at_def
  by (rule bit_word_eqI) (auto simp add: bit_simps)

text \<open>
  \<open>read_word\<close> returns the low 16 bits of the field only: the bytes at \<open>offset + 2\<close> and
  \<open>offset + 3\<close> never reach the result.
\<close>

lemma read_word_low16:
  "read_word mem buf offset = ucast (le16_at mem (buf + word_of_int offset))"
  by (simp add: read_word_def Let_def low16_of_doubled_half low16_of_load_u32 read_half_le16)

text \<open>
  C3. The claim: for every buffer and offset, \<open>read_half\<close> and \<open>read_word\<close> return the
  little-endian value stored there. It holds of \<open>read_half\<close> (\<open>read_half_le16\<close>) and
  fails of \<open>read_word\<close>: on a field holding 0x00010000 (bytes 00 00 01 00) it returns 0
  where the little-endian value is 0x10000, on an 8-byte aligned address (buffer 0x1000,
  the direct load) and on an unaligned one (buffer 0x1001, the byte-wise branch).
\<close>

theorem read_word_drops_high_half:
  "read_word (bytes_at [(0x1002, 0x01)]) (0x1000 :: 32 word) 0 = 0
   \<and> le32_at (bytes_at [(0x1002, 0x01)]) (0x1000 :: 32 word) = 0x10000
   \<and> read_word (bytes_at [(0x1003, 0x01)]) (0x1001 :: 32 word) 0 = 0
   \<and> le32_at (bytes_at [(0x1003, 0x01)]) (0x1001 :: 32 word) = 0x10000"
  by (simp add: read_word_def read_half_def read_byte_def load_u16_def load_u32_def
      le32_at_def)

section \<open>Mounting\<close>

text \<open>
  \<open>is_power_of_2\<close> returns 0 or 1, never 512, so the third check of \<open>read_bpb\<close>
  rejects every boot sector that passed the first two.
\<close>

lemma validate_bpb_always_fails: "validate_bpb mem buf b = - 1"
  by (simp add: validate_bpb_def is_power_of_2_def)

lemma read_bpb_negative: "fst (read_bpb m) < 0"
  by (simp add: read_bpb_def validate_bpb_always_fails Let_def split: prod.splits)

lemma read_bpb_geometry:
  "geometry (xfat (snd (read_bpb m))) = geometry (xfat m)"
  by (simp add: read_bpb_def host_read_sectors_def geometry_def Let_def split: prod.splits)

text \<open>No call of \<open>xfat_init\<close> succeeds, whatever the provider and the boot sector.\<close>

lemma xfat_init_never_succeeds: "\<exists>r. fst (xfat_init lba n h m) = Return r \<and> r < 0"
  using read_bpb_negative
    [of "m\<lparr>xfat := (xfat m)\<lparr>host := h, xfat.buffer := xfat_storage_provider.buffer h\<rparr>\<rparr>"]
  by (auto simp add: xfat_init_def Let_def split: prod.splits)

lemma mount_sample_memory:
  "memory (snd (mount_sample bytes))
     = copy_sectors (boot_disk bytes) (copy_sectors (boot_disk bytes) (\<lambda>a. 0) 0x1000 0 1)
         0x2000 0 1"
  by (simp add: mount_sample_def xfat_init_def read_bpb_def host_read_sectors_def
      sample_provider_def sample_machine_def Let_def split: prod.splits)

lemma mount_sample_result: "fst (mount_sample bytes) = Return (- 1)"
  by (simp add: mount_sample_def xfat_init_def read_bpb_def host_read_sectors_def
      sample_provider_def sample_machine_def Let_def validate_bpb_always_fails
      split: prod.splits)

lemma mount_sample_data_sector: "data_sector (xfat (snd (mount_sample bytes))) = 0"
  by (simp add: mount_sample_def xfat_init_def read_bpb_def host_read_sectors_def
      sample_provider_def sample_machine_def Let_def split: prod.splits)

lemma mount_sample_geometry:
  "geometry (xfat (snd (mount_sample bytes))) = (0, 0, 0, 0, 0, 0, 0)"
  by (simp add: mount_sample_def xfat_init_def read_bpb_def host_read_sectors_def
      sample_provider_def sample_machine_def geometry_def Let_def split: prod.splits)

lemma good_boot_well_formed:
  "spec_well_formed (memory (snd (mount_sample good_boot))) 0x1000"
  by (simp add: mount_sample_memory spec_well_formed_def copy_sectors_def boot_disk_def
      good_boot_def le16_at_def le32_at_def FAT32_label_def upt_rec)

lemma good_boot_data_region:
  "spec_data_region_start (memory (snd (mount_sample good_boot))) 0x1000 = 2080"
  by (simp add: mount_sample_memory spec_data_region_start_def copy_sectors_def boot_disk_def
      good_boot_def le16_at_def le32_at_def)

text \<open>
  C1. The claim: mounting a well-formed 512-byte-sector FAT32 boot sector succeeds and
  commits the geometry computed from the BPB, \<open>data_region_start = reserved_sector_count
  + fat_count * sectors_per_fat\<close> in particular. On the boot sector \<open>good_boot\<close>, which is
  well-formed and whose data region starts at sector 32 + 2 * 0x400 = 2080, \<open>xfat_init\<close>
  returns -1 and \<open>data_sector\<close> keeps the value 0 it had.
\<close>

theorem xfat_init_fails_on_well_formed:
  "spec_well_formed (memory (snd (mount_sample good_boot))) 0x1000
   \<and> spec_data_region_start (memory (snd (mount_sample good_boot))) 0x1000 = 2080
   \<and> fst (mount_sample good_boot) = Return (- 1)
   \<and> data_sector (xfat (snd (mount_sample good_boot))) = 0"
  by (simp add: mount_sample_result mount_sample_data_sector
      good_boot_well_formed good_boot_data_region)




section \<open>The sector cache\<close>

lemma host_read_sectors_xfat: "xfat (snd (host_read_sectors h ha b lba nr m)) = xfat m"
  by (simp add: host_read_sectors_def split: prod.splits)

lemma host_read_sectors_io_log:
  "io_log (snd (host_read_sectors h ha b lba nr m)) = io_log m @ [(lba, nr)]"
  by (simp add: host_read_sectors_def split: prod.splits)

text \<open>
  What \<open>read_sector\<close> does: a read of the cached sector returns 0 and leaves the machine
  as it was, the log of provider reads included; a read of any other sector issues
  exactly one provider read, of one sector; when the provider succeeds the cached index
  becomes the requested sector and the result is 0; when the provider fails the result is
  -1 and the cached index keeps its value.
\<close>

lemma read_sector_hit: "cur_sector (xfat m) = sec \<Longrightarrow> read_sector ha b lba sec m = (0, m)"
  by (simp add: read_sector_def)

lemma read_sector_miss_io:
  "cur_sector (xfat m) \<noteq> sec \<Longrightarrow>
     io_log (snd (read_sector ha b lba sec m)) = io_log m @ [(lba, 1)]"
  using host_read_sectors_io_log[of "host (xfat m)" ha b lba 1 m]
  by (simp add: read_sector_def Let_def case_prod_beta)

lemma read_sector_miss_ok:
  "cur_sector (xfat m) \<noteq> sec \<Longrightarrow>
   0 \<le> fst (host_read_sectors (host (xfat m)) ha b lba 1 m) \<Longrightarrow>
     fst (read_sector ha b lba sec m) = 0
     \<and> cur_sector (xfat (snd (read_sector ha b lba sec m))) = sec"
  by (simp add: read_sector_def Let_def case_prod_beta)

lemma read_sector_miss_fail:
  "cur_sector (xfat m) \<noteq> sec \<Longrightarrow>
   fst (host_read_sectors (host (xfat m)) ha b lba 1 m) < 0 \<Longrightarrow>
     fst (read_sector ha b lba sec m) = - 1
     \<and> cur_sector (xfat (snd (read_sector ha b lba sec m))) = cur_sector (xfat m)"
  using host_read_sectors_xfat[of "host (xfat m)" ha b lba 1 m]
  by (simp add: read_sector_def Let_def case_prod_beta)

text \<open>
  C4. The claim: a failed provider read invalidates the cached index, so that the buffer
  contents are valid iff the cached index equals the last successfully read sector. On
  the numbered disk, whose sector 7 cannot be read: with sector 5 cached and its bytes
  in the buffer, the read of sector 7 fails after the provider has overwritten the
  buffer; \<open>read_sector\<close> returns -1 and \<open>cur_sector\<close> is still 5, so the next read of
  sector 5 returns 0 without any provider read, on a buffer that holds 0xFF where
  sector 5 has 5. The member \<open>cur_sector\<close> carries the comment "sector number currently
  buffer holds".
\<close>

theorem read_sector_keeps_index_on_failure:
  "memory cache_after_5 0x1000 = 5
   \<and> cur_sector (xfat cache_after_5) = 5
   \<and> fst (read_sector 0x2000 0x1000 7 7 cache_after_5) = - 1
   \<and> cur_sector (xfat cache_after_7) = 5
   \<and> memory cache_after_7 0x1000 = 0xFF
   \<and> read_sector 0x2000 0x1000 5 5 cache_after_7 = (0, cache_after_7)"
  by (simp add: cache_after_7_def cache_after_5_def read_sector_def host_read_sectors_def
      cache_machine_def sample_machine_def sample_provider_def Let_def copy_sectors_def
      numbered_disk_def)

section \<open>Path resolution and file read\<close>

lemma skip_delimeters_idem: "skip_delimeters (skip_delimeters s) = skip_delimeters s"
  by (induction s) auto

lemma get_dentry_loop_Some:
  assumes "get_dentry_loop fe iter c d s m = Some y"
  shows "deref (skip_delimeters s) = CHR 0x00 \<and> y = (- 1, d, m)"
proof (rule get_dentry_loop.raw_induct
    [where P = "\<lambda>fe iter c d s m y. deref (skip_delimeters s) = CHR 0x00 \<and> y = (- 1, d, m)",
     OF _ assms])
  fix loop :: "(int \<Rightarrow> ('a, 'b) machine \<Rightarrow> int \<times> ('a, 'b) machine) \<Rightarrow> diter \<Rightarrow> int \<Rightarrow> xfat32_dentry
     \<Rightarrow> string \<Rightarrow> ('a, 'b) machine \<Rightarrow> (int \<times> xfat32_dentry \<times> ('a, 'b) machine) option"
  fix fe iter c d s m y
  assume IH: "\<And>fe iter c d s m y. loop fe iter c d s m = Some y \<Longrightarrow>
                deref (skip_delimeters s) = CHR 0x00 \<and> y = (- 1, d, m)"
    and step: "(let s1 = skip_delimeters s in
      if deref s1 = CHR 0x00 then Some (- 1, d, m)
      else
        (let e = component_end s1;
             m' = (if sector iter \<ge> xfat.cluster_sz (xfat m)
                   then snd (fe c m) else m)
         in loop fe iter c d s1 m')) = Some y"
  show "deref (skip_delimeters s) = CHR 0x00 \<and> y = (- 1, d, m)"
  proof (cases "deref (skip_delimeters s) = CHR 0x00")
    case True
    with step show ?thesis by (simp add: Let_def)
  next
    case False
    with step obtain m' where "loop fe iter c d (skip_delimeters s) m' = Some y"
      by (simp add: Let_def)
    from IH[OF this] have "deref (skip_delimeters (skip_delimeters s)) = CHR 0x00" by simp
    with False show ?thesis by (simp add: skip_delimeters_idem)
  qed
qed

lemma get_dentry_loop_diverges:
  "deref (skip_delimeters s) \<noteq> CHR 0x00 \<Longrightarrow> get_dentry_loop fe iter c d s m = None"
  using get_dentry_loop_Some[of fe iter c d s m] by (cases "get_dentry_loop fe iter c d s m") auto

lemma get_dentry_loop_end:
  "deref (skip_delimeters s) = CHR 0x00 \<Longrightarrow> get_dentry_loop fe iter c d s m = Some (- 1, d, m)"
  by (subst get_dentry_loop.simps) (simp add: Let_def)

lemma skip_delimeters_all:
  "\<forall>c \<in> set ds. is_delimeter c \<noteq> 0 \<Longrightarrow> skip_delimeters (ds @ p) = skip_delimeters p"
  by (induction ds) (auto simp add: is_delimeter_def)

lemma skip_delimeters_component:
  "is_delimeter c = 0 \<Longrightarrow> skip_delimeters (c # rest) = c # rest"
  by simp

text \<open>
  A path with a component (a character other than a delimiter before its end) makes
  \<open>get_dentry\<close> loop without end; any other path makes it return -1 at once, with \<open>*d\<close>
  and the machine untouched. So \<open>xfat_readfile\<close>, when it returns at all, returns -1.
\<close>

lemma get_dentry_diverges:
  "deref (skip_delimeters path) \<noteq> CHR 0x00 \<Longrightarrow> get_dentry fe path d m = None"
  by (simp add: get_dentry_def get_dentry_loop_diverges)

lemma get_dentry_returns:
  "deref (skip_delimeters path) = CHR 0x00 \<Longrightarrow> get_dentry fe path d m = Some (- 1, d, m)"
  by (simp add: get_dentry_def get_dentry_loop_end)

lemma xfat_readfile_Some:
  "xfat_readfile fe d0 path buf offset sz m = Some (r, m') \<Longrightarrow> r = Return (- 1) \<and> m' = m"
  by (auto simp add: xfat_readfile_def get_dentry_def split: option.splits if_splits
      dest: get_dentry_loop_Some)

text \<open>
  C5. The claim: for a resolved file and a request with \<open>offset + length > file_size\<close>,
  \<open>read_file\<close> fails with OutOfRange. For the path \<open>/HELLO.TXT\<close>, offset 0 and size 10,
  on any volume (one whose root holds a 5-byte HELLO.TXT among them), \<open>xfat_readfile\<close>
  does not return: \<open>get_dentry\<close> never leaves its loop.
\<close>

theorem xfat_readfile_never_returns:
  "xfat_readfile fe d0 ''/HELLO.TXT'' buf 0 10 m = None"
  by (simp add: xfat_readfile_def get_dentry_def get_dentry_loop_diverges deref_def
      is_delimeter_def)

text \<open>
  C6. The claim: an entry value in 2..0x0FFFFFEF is a normal next cluster. The cluster
  0x01000000 is in that range and \<open>valid_cluster\<close> returns 0 for it: its upper bound is
  0xffffff.
\<close>

theorem valid_cluster_rejects_normal:
  "spec_normal_cluster 0x01000000 \<and> valid_cluster 0x01000000 = 0"
  by (simp add: spec_normal_cluster_def valid_cluster_def)

text \<open>
  C8. The claim: a path and the same path in the other case resolve to the same
  directory entry or the same error. Neither \<open>/DIR/FILE.TXT\<close> nor \<open>/dir/file.txt\<close>
  resolves to anything: \<open>get_dentry\<close> returns for neither, on any volume.
\<close>

theorem get_dentry_case_variants_never_return:
  "get_dentry fe ''/DIR/FILE.TXT'' d m = None \<and> get_dentry fe ''/dir/file.txt'' d m = None"
  by (simp add: get_dentry_def get_dentry_loop_diverges deref_def is_delimeter_def)

text \<open>
  C9. The claim: no traversal loops indefinitely, a cyclic chain ending in a Corruption
  error within a bounded number of iterations. For the path \<open>A\<close>, \<open>get_dentry\<close> does not
  return, whatever \<open>fat_entry\<close> answers (a FAT with a cycle included) and whatever the
  volume holds: the \<open>while (1)\<close> has no bound and its body no statement that advances.
\<close>

theorem get_dentry_loops_forever:
  "get_dentry fe ''A'' d m = None"
  by (simp add: get_dentry_def get_dentry_loop_diverges deref_def is_delimeter_def)

text \<open>
  C10. For a path that is empty or holds delimiters only, \<open>get_dentry\<close> returns -1 with
  \<open>*d\<close> and the machine untouched. Delimiters before a component are skipped: they do
  not change the outcome of the resolution, and the inner loop stops on the first
  character of the component.
\<close>

theorem get_dentry_only_delimiters:
  assumes "\<forall>c \<in> set ds. is_delimeter c \<noteq> 0"
  shows "get_dentry fe ds d m = Some (- 1, d, m)
         \<and> get_dentry fe (ds @ p) d m = get_dentry fe p d m
         \<and> (is_delimeter c = 0 \<longrightarrow> skip_delimeters (ds @ c # rest) = c # rest)"
proof -
  have e: "skip_delimeters ds = []"
    using skip_delimeters_all[OF assms, of "[]"] by simp
  have a: "get_dentry fe ds d m = Some (- 1, d, m)"
    by (simp add: get_dentry_def get_dentry_loop_end e deref_def)
  have s: "skip_delimeters (ds @ p) = skip_delimeters p"
    by (rule skip_delimeters_all[OF assms])
  have b: "get_dentry_loop fe it cl d (ds @ p) m = get_dentry_loop fe it cl d p m" for it cl
    by (subst get_dentry_loop.simps[of fe it cl d p m],
        subst get_dentry_loop.simps[of fe it cl d "ds @ p" m]) (simp only: s)
  have c: "is_delimeter c = 0 \<longrightarrow> skip_delimeters (ds @ c # rest) = c # rest"
    by (simp add: skip_delimeters_all[OF assms])
  show ?thesis using a b c by (simp add: get_dentry_def)
qed

theorem get_dentry_only_delimiters_witness:
  "is_delimeter CHR ''/'' \<noteq> 0 \<and> is_delimeter (CHR 0x5C) \<noteq> 0
   \<and> get_dentry cyclic_fat_entry [CHR ''/'', CHR 0x5C, CHR ''/''] sample_dentry cache_machine
       = Some (- 1, sample_dentry, cache_machine)
   \<and> get_dentry cyclic_fat_entry [] sample_dentry cache_machine
       = Some (- 1, sample_dentry, cache_machine)
   \<and> skip_delimeters ([CHR ''/'', CHR 0x5C, CHR ''/''] @ ''a/b'') = ''a/b''"
proof -
  have h: "\<forall>c \<in> set [CHR ''/'', CHR 0x5C, CHR ''/'']. is_delimeter c \<noteq> 0"
    by (simp add: is_delimeter_def)
  have h0: "\<forall>c \<in> set []. is_delimeter c \<noteq> 0" by simp
  have n: "is_delimeter CHR ''a'' = 0" by (simp add: is_delimeter_def)
  show ?thesis
    using h n get_dentry_only_delimiters[OF h, of cyclic_fat_entry sample_dentry cache_machine "[]" "CHR ''a''" "''/b''"]
      get_dentry_only_delimiters[OF h0, of cyclic_fat_entry sample_dentry cache_machine "[]" "CHR ''a''" "''/b''"]
    by (simp add: is_delimeter_def)
qed

end
